theory Spec2Isabelle
  imports Main
begin

section \<open>The selectable list: options, arrays and the object store\<close>

text \<open>
  The toggle handlers of \<^verbatim>\<open>EuiSelectableList\<close> compare options by object identity
  (\<^verbatim>\<open>option === addedOption\<close>), build copies with \<^verbatim>\<open>{ ...option }\<close> and, on the exclude
  path, assign to a property of an object the owner still holds. The model therefore keeps
  objects and arrays in an explicit store: a reference is the position of the object (or of
  the array) in the store, an allocation appends to the store, and two references are
  identical exactly when they are the same number.
\<close>

type_synonym ref = nat

text \<open>
  The property \<^verbatim>\<open>checked?: 'on' | 'off' | undefined\<close>. The record field \<open>checked\<close> is
  \<open>None\<close> when the object has no \<^verbatim>\<open>checked\<close> key (what \<^verbatim>\<open>delete\<close> leaves behind) and
  \<open>Some v\<close> when the key is present with value \<open>v\<close>.
\<close>

datatype checked_val = CheckedOn | CheckedOff | CheckedUndefined

text \<open>
  An option object. \<open>disabled\<close> and \<open>isGroupLabel\<close> are optional booleans (\<open>None\<close>: not
  given); \<open>prepend\<close> and \<open>append_node\<close> (the property \<^verbatim>\<open>append\<close>) stand for the
  remaining properties, which the handlers only copy.
\<close>

record EuiSelectableOption =
  label :: string
  checked :: "checked_val option"
  disabled :: "bool option"
  isGroupLabel :: "bool option"
  prepend :: "string option"
  append_node :: "string option"

text \<open>\<^verbatim>\<open>singleSelection?: 'always' | boolean\<close>\<close>

datatype single_selection = SingleAlways | SingleBool bool

text \<open>
  The properties of the component that the handlers read. \<open>options\<close> refers to an array
  in the store. The callback \<^verbatim>\<open>onOptionClick\<close> is recorded in the world, below.
\<close>

record EuiSelectableListProps =
  options :: ref
  visibleOptions :: "ref option"
  singleSelection :: "single_selection option"
  allowExclusions :: "bool option"

text \<open>The three private toggle handlers.\<close>

datatype toggle = Exclude | Remove | Add

text \<open>
  A write to a property of a frozen (read-only) object throws \<^verbatim>\<open>TypeError\<close>: the component
  is module code, which runs in strict mode.
\<close>

datatype error = TypeError

text \<open>
  The world the handlers run in: the object store; the objects of the store that are
  frozen; the array store; the calls made to \<^verbatim>\<open>onOptionClick\<close> (each with the reference of
  the array it was given, oldest first); a trace of the toggle handlers that were entered
  (oldest first); and the exceptions that left a click handler (oldest first). The trace is
  what a spy on the three handlers would record; nothing in the model reads it.
\<close>

record world =
  objs :: "EuiSelectableOption list"
  frozen :: "ref set"
  arrs :: "ref list list"
  onOptionClick_calls :: "ref list"
  entered :: "toggle list"
  thrown :: "error list"

text \<open>JavaScript truthiness of an optional boolean and of \<^verbatim>\<open>singleSelection\<close>.\<close>

definition truthy :: "bool option \<Rightarrow> bool" where
  "truthy b = (b = Some True)"

definition truthy_single :: "single_selection option \<Rightarrow> bool" where
  "truthy_single s = (s = Some SingleAlways \<or> s = Some (SingleBool True))"

text \<open>
  \<^verbatim>\<open>{ ...option }\<close>: a new object with the properties of \<open>option\<close>. The new object is an
  ordinary one: it is not frozen, whatever \<open>option\<close> is.
\<close>

definition spread :: "ref \<Rightarrow> world \<Rightarrow> ref \<times> world" where
  "spread option w =
     (length (objs w),
      w\<lparr>objs := objs w @ [objs w ! option], frozen := frozen w - {length (objs w)}\<rparr>)"

text \<open>
  \<^verbatim>\<open>delete o.checked\<close> and \<^verbatim>\<open>o.checked = v\<close>, in place on the object \<open>o\<close>. On a frozen
  object the assignment throws, and so does the deletion of a key the object has.
\<close>

definition delete_checked :: "ref \<Rightarrow> world \<Rightarrow> error + world" where
  "delete_checked r w =
     (if r \<in> frozen w \<and> checked (objs w ! r) \<noteq> None then Inl TypeError
      else Inr (w\<lparr>objs := (objs w)[r := (objs w ! r)\<lparr>checked := None\<rparr>]\<rparr>))"

definition assign_checked :: "ref \<Rightarrow> checked_val \<Rightarrow> world \<Rightarrow> error + world" where
  "assign_checked r v w =
     (if r \<in> frozen w then Inl TypeError
      else Inr (w\<lparr>objs := (objs w)[r := (objs w ! r)\<lparr>checked := Some v\<rparr>]\<rparr>))"

text \<open>
  \<^verbatim>\<open>array.map(callback)\<close>: the callback runs on the elements from left to right, each run in
  the world the previous one left, and the results go into a new array; an exception of
  the callback ends the loop. None of the callbacks below writes to an array, so the
  elements are read once, before the loop.
\<close>

fun map_loop ::
  "(ref \<Rightarrow> world \<Rightarrow> error + ref \<times> world) \<Rightarrow> ref list \<Rightarrow> world \<Rightarrow> error + ref list \<times> world" where
  "map_loop f [] w = Inr ([], w)"
| "map_loop f (x # xs) w =
     (case f x w of
        Inl e \<Rightarrow> Inl e
      | Inr (y, w1) \<Rightarrow>
          (case map_loop f xs w1 of
             Inl e \<Rightarrow> Inl e
           | Inr (ys, w2) \<Rightarrow> Inr (y # ys, w2)))"

definition array_map ::
  "(ref \<Rightarrow> world \<Rightarrow> error + ref \<times> world) \<Rightarrow> ref \<Rightarrow> world \<Rightarrow> error + ref \<times> world" where
  "array_map f a w =
     (case map_loop f (arrs w ! a) w of
        Inl e \<Rightarrow> Inl e
      | Inr (ys, w1) \<Rightarrow> Inr (length (arrs w1), w1\<lparr>arrs := arrs w1 @ [ys]\<rparr>))"

text \<open>The owner's callback: the call is recorded with the array it received.\<close>

definition onOptionClick :: "ref \<Rightarrow> world \<Rightarrow> world" where
  "onOptionClick updatedOptions w =
     w\<lparr>onOptionClick_calls := onOptionClick_calls w @ [updatedOptions]\<rparr>"

definition enter :: "toggle \<Rightarrow> world \<Rightarrow> world" where
  "enter t w = w\<lparr>entered := entered w @ [t]\<rparr>"

text \<open>
  An exception that no statement of the handler catches ends the handler and is recorded.
  What the handler has written into objects of its caller by then stays written; the
  copies it has made by then are lost with it.
\<close>

definition uncaught :: "error \<Rightarrow> world \<Rightarrow> world" where
  "uncaught e w = w\<lparr>thrown := thrown w @ [e]\<rparr>"

subsection \<open>The handlers\<close>

text \<open>The callback of \<^verbatim>\<open>options.map\<close> in \<^verbatim>\<open>onAddOption\<close>.\<close>

definition onAddOption_each ::
  "EuiSelectableListProps \<Rightarrow> ref \<Rightarrow> ref \<Rightarrow> world \<Rightarrow> error + ref \<times> world" where
  "onAddOption_each props addedOption option w =
     (case spread option w of (updatedOption, w1) \<Rightarrow>
        (case (if truthy_single (singleSelection props)
               then delete_checked updatedOption w1 else Inr w1) of
           Inl e \<Rightarrow> Inl e
         | Inr w2 \<Rightarrow>
             (case (if option = addedOption
                    then assign_checked updatedOption CheckedOn w2 else Inr w2) of
                Inl e \<Rightarrow> Inl e
              | Inr w3 \<Rightarrow> Inr (updatedOption, w3))))"

definition onAddOption :: "EuiSelectableListProps \<Rightarrow> ref \<Rightarrow> world \<Rightarrow> world" where
  "onAddOption props addedOption w =
     (case array_map (onAddOption_each props addedOption) (options props) (enter Add w) of
        Inl e \<Rightarrow> uncaught e (enter Add w)
      | Inr (updatedOptions, w1) \<Rightarrow> onOptionClick updatedOptions w1)"

text \<open>The callback of \<^verbatim>\<open>options.map\<close> in \<^verbatim>\<open>onRemoveOption\<close>.\<close>

definition onRemoveOption_each ::
  "EuiSelectableListProps \<Rightarrow> ref \<Rightarrow> ref \<Rightarrow> world \<Rightarrow> error + ref \<times> world" where
  "onRemoveOption_each props removedOption option w =
     (case spread option w of (updatedOption, w1) \<Rightarrow>
        (case (if option = removedOption \<and> singleSelection props \<noteq> Some SingleAlways
               then delete_checked updatedOption w1 else Inr w1) of
           Inl e \<Rightarrow> Inl e
         | Inr w2 \<Rightarrow> Inr (updatedOption, w2)))"

definition onRemoveOption :: "EuiSelectableListProps \<Rightarrow> ref \<Rightarrow> world \<Rightarrow> world" where
  "onRemoveOption props removedOption w =
     (case array_map (onRemoveOption_each props removedOption) (options props) (enter Remove w) of
        Inl e \<Rightarrow> uncaught e (enter Remove w)
      | Inr (updatedOptions, w1) \<Rightarrow> onOptionClick updatedOptions w1)"

text \<open>The callback of \<^verbatim>\<open>options.map\<close> in \<^verbatim>\<open>onExcludeOption\<close>.\<close>

definition onExcludeOption_each :: "ref \<Rightarrow> ref \<Rightarrow> world \<Rightarrow> error + ref \<times> world" where
  "onExcludeOption_each excludedOption option w =
     (case spread option w of (updatedOption, w1) \<Rightarrow>
        (case (if option = excludedOption
               then assign_checked updatedOption CheckedOff w1 else Inr w1) of
           Inl e \<Rightarrow> Inl e
         | Inr w2 \<Rightarrow> Inr (updatedOption, w2)))"

text \<open>
  \<^verbatim>\<open>onExcludeOption\<close> first assigns \<^verbatim>\<open>excludedOption.checked = 'off'\<close> on the object it
  was given, then maps. When that object is frozen the assignment throws, before the map
  and before the callback.
\<close>

definition onExcludeOption :: "EuiSelectableListProps \<Rightarrow> ref \<Rightarrow> world \<Rightarrow> world" where
  "onExcludeOption props excludedOption w =
     (case assign_checked excludedOption CheckedOff (enter Exclude w) of
        Inl e \<Rightarrow> uncaught e (enter Exclude w)
      | Inr w0 \<Rightarrow>
          (case array_map (onExcludeOption_each excludedOption) (options props) w0 of
             Inl e \<Rightarrow> uncaught e w0
           | Inr (updatedOptions, w1) \<Rightarrow> onOptionClick updatedOptions w1))"

text \<open>The click handler of a row.\<close>

definition onAddOrRemoveOption :: "EuiSelectableListProps \<Rightarrow> ref \<Rightarrow> world \<Rightarrow> world" where
  "onAddOrRemoveOption props option w =
     (if truthy (disabled (objs w ! option)) then w
      else if checked (objs w ! option) = Some CheckedOn \<and> truthy (allowExclusions props)
        then onExcludeOption props option w
      else if checked (objs w ! option) = Some CheckedOn
            \<or> checked (objs w ! option) = Some CheckedOff
        then onRemoveOption props option w
      else onAddOption props option w)"

subsection \<open>Rows, re-rendering and well-formed stores\<close>

text \<open>\<^verbatim>\<open>render\<close>: the rows show \<^verbatim>\<open>visibleOptions || options\<close>.\<close>

definition optionArray :: "EuiSelectableListProps \<Rightarrow> ref" where
  "optionArray props = (case visibleOptions props of None \<Rightarrow> options props | Some v \<Rightarrow> v)"

text \<open>
  A click on row \<open>index\<close>. The list has a row for every element of the array it shows.
  \<^verbatim>\<open>ListRow\<close> takes \<^verbatim>\<open>data[index]\<close>; for a group label it renders an item without a click
  handler, otherwise an item whose \<^verbatim>\<open>onClick\<close> calls \<^verbatim>\<open>onAddOrRemoveOption(option)\<close>.
\<close>

definition click_row :: "EuiSelectableListProps \<Rightarrow> nat \<Rightarrow> world \<Rightarrow> world" where
  "click_row props index w =
     (if index < length (arrs w ! optionArray props)
      then (let option = arrs w ! optionArray props ! index
            in if truthy (isGroupLabel (objs w ! option)) then w
               else onAddOrRemoveOption props option w)
      else w)"

text \<open>Row \<open>index\<close> exists and shows the option at position \<open>i\<close> of \<^verbatim>\<open>options\<close>.\<close>

definition shows_option :: "EuiSelectableListProps \<Rightarrow> world \<Rightarrow> nat \<Rightarrow> nat \<Rightarrow> bool" where
  "shows_option props w index i \<longleftrightarrow>
     index < length (arrs w ! optionArray props) \<and>
     arrs w ! optionArray props ! index = arrs w ! options props ! i"

text \<open>The array most recently handed to \<^verbatim>\<open>onOptionClick\<close>.\<close>

definition updatedOptions :: "world \<Rightarrow> ref list" where
  "updatedOptions w = arrs w ! last (onOptionClick_calls w)"

text \<open>
  The component is controlled by its owner: after a click the owner renders it again with
  the array it received as the new \<^verbatim>\<open>options\<close>. The owner may pass a filtered list of its
  own making as \<^verbatim>\<open>visibleOptions\<close> (\<open>Some rows\<close>: a new array with these elements) or none.
\<close>

definition rerender ::
  "EuiSelectableListProps \<Rightarrow> ref list option \<Rightarrow> world \<Rightarrow> EuiSelectableListProps \<times> world" where
  "rerender props visible w =
     (case visible of
        None \<Rightarrow>
          (props\<lparr>options := last (onOptionClick_calls w), visibleOptions := None\<rparr>, w)
      | Some rows \<Rightarrow>
          (props\<lparr>options := last (onOptionClick_calls w), visibleOptions := Some (length (arrs w))\<rparr>,
           w\<lparr>arrs := arrs w @ [rows]\<rparr>))"

text \<open>
  A click on row \<open>index\<close>, the owner rendering the list again, and a click on row
  \<open>index'\<close> of the list as it is then.
\<close>

definition click_twice ::
  "EuiSelectableListProps \<Rightarrow> nat \<Rightarrow> ref list option \<Rightarrow> nat \<Rightarrow> world \<Rightarrow> world" where
  "click_twice props index visible index' w =
     (case rerender props visible (click_row props index w) of
        (props', w') \<Rightarrow> click_row props' index' w')"

text \<open>
  A reference of a running program always leads to a live object. In the model this is a
  condition on the store: \<^verbatim>\<open>options\<close> is an array of the store, and its elements are
  objects of the store.
\<close>

definition store_ok :: "EuiSelectableListProps \<Rightarrow> world \<Rightarrow> bool" where
  "store_ok props w \<longleftrightarrow>
     options props < length (arrs w) \<and>
     (\<forall>r\<in>set (arrs w ! options props). r < length (objs w))"

text \<open>
  What the three \<^verbatim>\<open>map\<close> callbacks have in common: a new object that is \<open>g\<close> of the
  element and its contents, and no exception; nothing else changes. Used in the proofs
  only.
\<close>

definition copy_as ::
  "(ref \<Rightarrow> EuiSelectableOption \<Rightarrow> EuiSelectableOption) \<Rightarrow> ref \<Rightarrow> world \<Rightarrow> error + ref \<times> world" where
  "copy_as g x w =
     Inr (length (objs w),
          w\<lparr>objs := objs w @ [g x (objs w ! x)], frozen := frozen w - {length (objs w)}\<rparr>)"

subsection \<open>A small list to run the handlers on\<close>

definition apple :: EuiSelectableOption where
  "apple = \<lparr>label = ''Apple'', checked = None, disabled = None, isGroupLabel = None,
             prepend = None, append_node = None\<rparr>"

definition banana :: EuiSelectableOption where
  "banana = \<lparr>label = ''Banana'', checked = None, disabled = None, isGroupLabel = None,
              prepend = None, append_node = Some ''ripe''\<rparr>"

definition cherry :: EuiSelectableOption where
  "cherry = \<lparr>label = ''Cherry'', checked = None, disabled = Some True, isGroupLabel = None,
              prepend = None, append_node = None\<rparr>"

text \<open>Three objects, none frozen, one array holding them in order, no call made yet.\<close>

definition fruit_world :: world where
  "fruit_world = \<lparr>objs = [apple, banana, cherry], frozen = {}, arrs = [[0, 1, 2]],
                   onOptionClick_calls = [], entered = [], thrown = []\<rparr>"

definition fruit_props :: "single_selection option \<Rightarrow> bool option \<Rightarrow> EuiSelectableListProps" where
  "fruit_props single excl =
     \<lparr>options = 0, visibleOptions = None, singleSelection = single, allowExclusions = excl\<rparr>"




abbreviation excl_props :: EuiSelectableListProps where
  "excl_props \<equiv> fruit_props None (Some True)"

text \<open>The same list with the first option already selected.\<close>

definition picked_world :: world where
  "picked_world = fruit_world\<lparr>objs := [apple\<lparr>checked := Some CheckedOn\<rparr>, banana, cherry]\<rparr>"

text \<open>The same again, the selected option frozen by its owner.\<close>

definition frozen_world :: world where
  "frozen_world = picked_world\<lparr>frozen := {0}\<rparr>"

text \<open>A list with a heading: the first object is a group label.\<close>

definition headed_world :: world where
  "headed_world = fruit_world\<lparr>objs := [apple\<lparr>isGroupLabel := Some True\<rparr>, banana, cherry]\<rparr>"

text \<open>A list whose array holds the same object twice.\<close>

definition doubled_world :: world where
  "doubled_world = fruit_world\<lparr>arrs := [[0, 1, 0]]\<rparr>"

subsection \<open>Copies\<close>

text \<open>
  \<open>shallow_copies w xs w' ys\<close>: the array \<open>ys\<close> of the world \<open>w'\<close> has the length of the
  array \<open>xs\<close> of the world \<open>w\<close>, and its element \<open>i\<close> is an object of its own that did not
  exist in \<open>w\<close> and agrees with element \<open>i\<close> of \<open>xs\<close> on every property other than
  \<open>checked\<close>.
\<close>

definition shallow_copies :: "world \<Rightarrow> ref list \<Rightarrow> world \<Rightarrow> ref list \<Rightarrow> bool" where
  "shallow_copies w xs w' ys \<longleftrightarrow>
     length ys = length xs \<and> distinct ys \<and>
     (\<forall>i < length xs.
        length (objs w) \<le> ys ! i \<and> ys ! i < length (objs w') \<and>
        (objs w' ! (ys ! i))\<lparr>checked := None\<rparr> = (objs w ! (xs ! i))\<lparr>checked := None\<rparr>)"

text \<open>
  \<open>one_call_with_copies props w w'\<close>: from \<open>w\<close> to \<open>w'\<close> the callback was called once more,
  with an array that did not exist in \<open>w\<close> and holds shallow copies of the options, and
  every array of \<open>w\<close> is still what it was.
\<close>

definition one_call_with_copies :: "EuiSelectableListProps \<Rightarrow> world \<Rightarrow> world \<Rightarrow> bool" where
  "one_call_with_copies props w w' \<longleftrightarrow>
     onOptionClick_calls w' = onOptionClick_calls w @ [length (arrs w)] \<and>
     length (arrs w') = Suc (length (arrs w)) \<and>
     take (length (arrs w)) (arrs w') = arrs w \<and>
     shallow_copies w (arrs w ! options props) w' (arrs w' ! length (arrs w))"


section \<open>Relative time expressions\<close>

text \<open>
  Modelled from the spec: the parser of relative time expressions, \<^verbatim>\<open>parseTimeParts\<close> of
  \<^verbatim>\<open>quick_select_utils\<close>, of which only the tests are at hand. An expression is \<^verbatim>\<open>now\<close>,
  or \<^verbatim>\<open>now\<close> followed by a sign, a positive integer and a unit, or \<^verbatim>\<open>now/\<close> followed by a
  unit. What the parser does on any other string is not specified; the model returns
  \<open>None\<close> there. The alphabet of units and the number of whole hours since the start of
  the current period of a unit (the calendar library's part) are parameters.
\<close>

datatype tense = Last | Next

record TimeParts =
  timeTense :: tense
  timeUnits :: char
  timeValue :: nat

text \<open>
  Modelled from the spec: the value of the literal digits of an expression, read in base
  ten.
\<close>

definition is_digit :: "char \<Rightarrow> bool" where
  "is_digit c \<longleftrightarrow> 48 \<le> (of_char c :: nat) \<and> (of_char c :: nat) \<le> 57"

definition digit_value :: "char \<Rightarrow> nat" where
  "digit_value c = of_char c - 48"

fun parseInt_from :: "nat \<Rightarrow> string \<Rightarrow> nat" where
  "parseInt_from acc [] = acc"
| "parseInt_from acc (c # cs) = parseInt_from (10 * acc + digit_value c) cs"

definition parseInt :: "string \<Rightarrow> nat" where
  "parseInt ds = parseInt_from 0 ds"

text \<open>The decimal numeral of a number, as it is written in an expression.\<close>

definition digit_char :: "nat \<Rightarrow> char" where
  "digit_char d = char_of (48 + d)"

fun decimal :: "nat \<Rightarrow> string" where
  "decimal n = (if n < 10 then [digit_char n] else decimal (n div 10) @ [digit_char (n mod 10)])"

declare decimal.simps [simp del]

text \<open>
  Modelled from the spec: the two forms with an offset, \<^verbatim>\<open>now<sign><N><unit>\<close> (tense from
  the sign, value \<open>N\<close>, unit as written) and \<^verbatim>\<open>now/<unit>\<close> (tense last, unit hour, value the
  whole hours since the start of the current period of the unit); the source of the parser
  is missing.
\<close>

definition parseRelative :: "string \<Rightarrow> (char \<Rightarrow> nat) \<Rightarrow> string \<Rightarrow> TimeParts option" where
  "parseRelative units hoursSince s =
     (if take 3 s = ''now'' then
        (case drop 3 s of
           [] \<Rightarrow> None
         | sign # rest \<Rightarrow>
             if sign = CHR ''+'' \<or> sign = CHR ''-'' then
               (case dropWhile is_digit rest of
                  [u] \<Rightarrow>
                    if takeWhile is_digit rest \<noteq> [] \<and> 0 < parseInt (takeWhile is_digit rest)
                       \<and> u \<in> set units
                    then Some \<lparr>timeTense = (if sign = CHR ''+'' then Next else Last),
                               timeUnits = u,
                               timeValue = parseInt (takeWhile is_digit rest)\<rparr>
                    else None
                | _ \<Rightarrow> None)
             else if sign = CHR ''/'' then
               (case rest of
                  [u] \<Rightarrow> if u \<in> set units
                         then Some \<lparr>timeTense = Last, timeUnits = CHR ''h'', timeValue = hoursSince u\<rparr>
                         else None
                | _ \<Rightarrow> None)
             else None)
      else None)"

text \<open>
  Modelled from the spec: \<^verbatim>\<open>parseTimeParts(value, fallback)\<close>, whose source is missing. For
  \<^verbatim>\<open>now\<close> alone the result has tense next and the unit and value of the fallback
  expression, as the testable properties and the test \<^verbatim>\<open>should parse now\<close> have it.
\<close>

definition parseTimeParts :: "string \<Rightarrow> (char \<Rightarrow> nat) \<Rightarrow> string \<Rightarrow> string \<Rightarrow> TimeParts option" where
  "parseTimeParts units hoursSince v fallback =
     (if v = ''now''
      then map_option (\<lambda>parts. parts\<lparr>timeTense := Next\<rparr>) (parseRelative units hoursSince fallback)
      else parseRelative units hoursSince v)"

text \<open>The units of the tests' expressions.\<close>

definition test_units :: string where
  "test_units = ''smhdwMy''"

section \<open>The update button\<close>

text \<open>An \<^verbatim>\<open>EuiI18n\<close> element: a token and the text shown when there is no translation.\<close>

record EuiI18n =
  token :: string
  default_str :: string

text \<open>What an element can show: an \<^verbatim>\<open>EuiI18n\<close> element or a plain text.\<close>

datatype node = I18n EuiI18n | Text string

text \<open>
  \<^verbatim>\<open>toolTipProps\<close>, the properties that are passed on to \<^verbatim>\<open>EuiToolTip\<close>. Of these the model
  keeps the two that \<^verbatim>\<open>render\<close> sets as well. A field is \<open>None\<close> when the object has no such
  key; the content under a key can itself be \<^verbatim>\<open>undefined\<close> (\<open>Some None\<close>).
\<close>

record EuiToolTipProps =
  toolTipProps_content :: "node option option"
  toolTipProps_position :: "string option"

text \<open>
  The properties beyond the declared ones (\<^verbatim>\<open>...rest\<close>), which are passed on to
  \<^verbatim>\<open>EuiButton\<close>. The declared ones are taken out before, so of the attributes that
  \<^verbatim>\<open>render\<close> sets these can carry \<^verbatim>\<open>color\<close>, \<^verbatim>\<open>fill\<close> and \<^verbatim>\<open>iconType\<close>.
\<close>

record EuiButtonRest =
  rest_color :: "string option"
  rest_fill :: "bool option"
  rest_iconType :: "string option"

text \<open>
  The properties of \<^verbatim>\<open>EuiSuperUpdateButton\<close>. The four flags have defaults
  (\<^verbatim>\<open>defaultProps\<close>, all false), so they are always booleans. \<^verbatim>\<open>onClick\<close> is handed on to the
  button as it is and is left out here.
\<close>

record EuiSuperUpdateButtonProps =
  className :: "string option"
  isDisabled :: bool
  isLoading :: bool
  needsUpdate :: bool
  toolTipProps :: "EuiToolTipProps option"
  showTooltip :: bool
  rest :: EuiButtonRest

text \<open>
  What \<^verbatim>\<open>render\<close> returns: an \<^verbatim>\<open>EuiToolTip\<close> element around an \<^verbatim>\<open>EuiButton\<close> element, each
  with the attributes it ends up with. \<open>children\<close> is the label of the button, \<open>content\<close>
  the content of the tooltip (\<open>None\<close>: \<^verbatim>\<open>undefined\<close>), \<open>anchored\<close> the button inside the
  tooltip.
\<close>

record EuiButton =
  button_className :: string
  color :: string
  fill :: bool
  iconType :: string
  button_isDisabled :: bool
  button_isLoading :: bool
  children :: EuiI18n

record EuiToolTip =
  content :: "node option"
  position :: string
  anchored :: EuiButton

text \<open>\<^verbatim>\<open>classNames(base, extra)\<close> for a fixed class and an optional one.\<close>

definition classNames :: "string \<Rightarrow> string option \<Rightarrow> string" where
  "classNames base extra =
     (case extra of None \<Rightarrow> base | Some c \<Rightarrow> if c = [] then base else base @ '' '' @ c)"

text \<open>
  An attribute that is followed by a spread: the spread wins where it carries the same
  key.
\<close>

definition spread_over :: "'a \<Rightarrow> 'a option \<Rightarrow> 'a" where
  "spread_over computed carried = (case carried of None \<Rightarrow> computed | Some v \<Rightarrow> v)"

text \<open>
  \<^verbatim>\<open>render\<close>. The tooltip gets \<^verbatim>\<open>content\<close> and \<^verbatim>\<open>position\<close>, then \<^verbatim>\<open>{...toolTipProps}\<close>; the
  button gets its computed attributes, then \<^verbatim>\<open>{...rest}\<close>, and the label as its child.
\<close>

definition render :: "EuiSuperUpdateButtonProps \<Rightarrow> EuiToolTip" where
  "render props =
     (let classes = classNames ''euiSuperUpdateButton'' (className props);
          buttonText =
            (if needsUpdate props \<or> isLoading props
             then (if isLoading props
                   then \<lparr>token = ''euiSuperUpdateButton.updatingButtonLabel'', default_str = ''Updating''\<rparr>
                   else \<lparr>token = ''euiSuperUpdateButton.updateButtonLabel'', default_str = ''Update''\<rparr>)
             else \<lparr>token = ''euiSuperUpdateButton.refreshButtonLabel'', default_str = ''Refresh''\<rparr>);
          tooltipContent =
            (if isDisabled props
             then Some (I18n \<lparr>token = ''euiSuperUpdateButton.cannotUpdateTooltip'',
                              default_str = ''Cannot update''\<rparr>)
             else if needsUpdate props \<and> \<not> isLoading props
             then Some (I18n \<lparr>token = ''euiSuperUpdateButton.clickToApplyTooltip'',
                              default_str = ''Click to apply''\<rparr>)
             else None)
      in \<lparr>content =
            spread_over tooltipContent (Option.bind (toolTipProps props) toolTipProps_content),
          position =
            spread_over ''bottom'' (Option.bind (toolTipProps props) toolTipProps_position),
          anchored =
            \<lparr>button_className = classes,
             color = spread_over
                       (if needsUpdate props \<or> isLoading props then ''secondary'' else ''primary'')
                       (rest_color (rest props)),
             fill = spread_over True (rest_fill (rest props)),
             iconType = spread_over
                          (if needsUpdate props \<or> isLoading props then ''kqlFunction'' else ''refresh'')
                          (rest_iconType (rest props)),
             button_isDisabled = isDisabled props,
             button_isLoading = isLoading props,
             children = buttonText\<rparr>\<rparr>)"

subsection \<open>The tooltip timer\<close>

text \<open>
  The instance of the component, together with what it acts on. \<open>isMounted\<close> is the field
  \<^verbatim>\<open>_isMounted\<close>; \<open>tooltip\<close> is the tooltip node the ref callback stored (\<open>None\<close>:
  \<^verbatim>\<open>null\<close>); \<open>tooltip_calls\<close> records the calls of \<^verbatim>\<open>showToolTip()\<close> and
  \<^verbatim>\<open>hideToolTip()\<close> on a node, oldest first. The timers of the runtime are part of the
  state: \<open>timers\<close> holds the pending ones, each with its identifier and the time in
  milliseconds at which it is due, \<open>nextTimer\<close> is the next identifier, \<open>clock\<close> the time.
  The only callback the component ever schedules is \<^verbatim>\<open>() => this.hideTooltip()\<close>.
\<close>

datatype tooltip_call = ShowToolTip | HideToolTip

record EuiSuperUpdateButton =
  isMounted :: bool
  tooltipTimeout :: "nat option"
  tooltip :: "nat option"
  tooltip_calls :: "(nat \<times> tooltip_call) list"
  timers :: "(nat \<times> nat) list"
  nextTimer :: nat
  clock :: nat

definition componentWillUnmount :: "EuiSuperUpdateButton \<Rightarrow> EuiSuperUpdateButton" where
  "componentWillUnmount this = this\<lparr>isMounted := False\<rparr>"

definition componentDidMount :: "EuiSuperUpdateButton \<Rightarrow> EuiSuperUpdateButton" where
  "componentDidMount this = this\<lparr>isMounted := True\<rparr>"

definition setTootipRef :: "nat option \<Rightarrow> EuiSuperUpdateButton \<Rightarrow> EuiSuperUpdateButton" where
  "setTootipRef node this = this\<lparr>tooltip := node\<rparr>"

definition showTooltip_method :: "EuiSuperUpdateButton \<Rightarrow> EuiSuperUpdateButton" where
  "showTooltip_method this =
     (if \<not> isMounted this then this
      else case tooltip this of
             None \<Rightarrow> this
           | Some node \<Rightarrow> this\<lparr>tooltip_calls := tooltip_calls this @ [(node, ShowToolTip)]\<rparr>)"

definition hideTooltip :: "EuiSuperUpdateButton \<Rightarrow> EuiSuperUpdateButton" where
  "hideTooltip this =
     (if \<not> isMounted this then this
      else case tooltip this of
             None \<Rightarrow> this
           | Some node \<Rightarrow> this\<lparr>tooltip_calls := tooltip_calls this @ [(node, HideToolTip)]\<rparr>)"

text \<open>\<^verbatim>\<open>setTimeout(callback, delay)\<close>: a new pending timer, due \<open>delay\<close> from now.\<close>

definition setTimeout :: "nat \<Rightarrow> EuiSuperUpdateButton \<Rightarrow> nat \<times> EuiSuperUpdateButton" where
  "setTimeout delay this =
     (nextTimer this,
      this\<lparr>timers := timers this @ [(nextTimer this, clock this + delay)],
           nextTimer := Suc (nextTimer this)\<rparr>)"

definition componentDidUpdate :: "EuiSuperUpdateButtonProps \<Rightarrow> EuiSuperUpdateButton \<Rightarrow> EuiSuperUpdateButton" where
  "componentDidUpdate props this =
     (if showTooltip props \<and> needsUpdate props \<and> \<not> isDisabled props \<and> \<not> isLoading props
      then (case setTimeout 2000 (showTooltip_method this) of
              (timer, this1) \<Rightarrow> this1\<lparr>tooltipTimeout := Some timer\<rparr>)
      else this)"

text \<open>
  The runtime: time passes, and a pending timer that is due runs its callback,
  \<^verbatim>\<open>hideTooltip\<close>, once. Nothing in the component removes a pending timer (there is no
  \<^verbatim>\<open>clearTimeout\<close>).
\<close>

definition advance :: "nat \<Rightarrow> EuiSuperUpdateButton \<Rightarrow> EuiSuperUpdateButton" where
  "advance ms this = this\<lparr>clock := clock this + ms\<rparr>"

definition fire :: "nat \<Rightarrow> EuiSuperUpdateButton \<Rightarrow> EuiSuperUpdateButton" where
  "fire timer this =
     (case map_of (timers this) timer of
        None \<Rightarrow> this
      | Some due \<Rightarrow>
          if due \<le> clock this
          then hideTooltip (this\<lparr>timers := filter (\<lambda>(t, d). t \<noteq> timer) (timers this)\<rparr>)
          else this)"

text \<open>Identifiers of pending timers were handed out before: they are below \<open>nextTimer\<close>.\<close>

definition timers_ok :: "EuiSuperUpdateButton \<Rightarrow> bool" where
  "timers_ok this \<longleftrightarrow> (\<forall>(t, d) \<in> set (timers this). t < nextTimer this)"

text \<open>A mounted button with its tooltip attached, and properties that need an update.\<close>

definition mounted_button :: EuiSuperUpdateButton where
  "mounted_button = \<lparr>isMounted = True, tooltipTimeout = None, tooltip = Some 7, tooltip_calls = [],
                      timers = [], nextTimer = 0, clock = 0\<rparr>"

definition stale_props :: "string option \<Rightarrow> bool \<Rightarrow> EuiSuperUpdateButtonProps" where
  "stale_props cls tip =
     \<lparr>className = cls, isDisabled = False, isLoading = False, needsUpdate = True,
      toolTipProps = None, showTooltip = tip,
      rest = \<lparr>rest_color = None, rest_fill = None, rest_iconType = None\<rparr>\<rparr>"

text \<open>A disabled button whose owner passes a tooltip content of its own.\<close>

definition busy_props :: EuiSuperUpdateButtonProps where
  "busy_props =
     (stale_props None False)
       \<lparr>isDisabled := True,
        toolTipProps := Some \<lparr>toolTipProps_content = Some (Some (Text ''Busy'')),
                              toolTipProps_position = None\<rparr>\<rparr>"

section \<open>Evaluation on the small list\<close>

lemmas fruit_defs = fruit_world_def fruit_props_def apple_def banana_def cherry_def

lemmas run_defs = click_row_def click_twice_def optionArray_def shows_option_def rerender_def
  updatedOptions_def onAddOrRemoveOption_def
  onAddOption_def onRemoveOption_def onExcludeOption_def onAddOption_each_def
  onRemoveOption_each_def onExcludeOption_each_def array_map_def spread_def delete_checked_def
  assign_checked_def onOptionClick_def enter_def uncaught_def truthy_def truthy_single_def
  Let_def
  fruit_defs picked_world_def frozen_world_def headed_world_def doubled_world_def

section \<open>The handlers in closed form\<close>

lemma onAddOption_each_copy:
  "onAddOption_each props a =
     copy_as (\<lambda>x ob. (if x = a then ob\<lparr>checked := Some CheckedOn\<rparr>
                      else if truthy_single (singleSelection props) then ob\<lparr>checked := None\<rparr> else ob))"
  by (rule ext, rule ext) (simp add: onAddOption_each_def copy_as_def spread_def delete_checked_def assign_checked_def)

lemma onRemoveOption_each_copy:
  "onRemoveOption_each props a =
     copy_as (\<lambda>x ob. (if x = a \<and> singleSelection props \<noteq> Some SingleAlways
                      then ob\<lparr>checked := None\<rparr> else ob))"
  by (rule ext, rule ext) (simp add: onRemoveOption_each_def copy_as_def spread_def delete_checked_def)

lemma onExcludeOption_each_copy:
  "onExcludeOption_each a =
     copy_as (\<lambda>x ob. (if x = a then ob\<lparr>checked := Some CheckedOff\<rparr> else ob))"
  by (rule ext, rule ext) (simp add: onExcludeOption_each_def copy_as_def spread_def assign_checked_def)

lemma copy_as_step:
  "copy_as g x w =
     Inr (length (objs w),
          w\<lparr>objs := objs w @ [g x (objs w ! x)], frozen := frozen w - {length (objs w)}\<rparr>)"
  by (simp add: copy_as_def)

lemma map_loop_copy_as:
  "\<forall>x\<in>set xs. x < length (objs w) \<Longrightarrow>
   map_loop (copy_as g) xs w =
     Inr ([length (objs w) ..< length (objs w) + length xs],
          w\<lparr>objs := objs w @ map (\<lambda>x. g x (objs w ! x)) xs,
            frozen := frozen w - {length (objs w) ..< length (objs w) + length xs}\<rparr>)"
proof (induction xs arbitrary: w)
  case Nil
  show ?case by simp
next
  case (Cons x xs)
  let ?w1 = "w\<lparr>objs := objs w @ [g x (objs w ! x)], frozen := frozen w - {length (objs w)}\<rparr>"
  have bound: "\<forall>y\<in>set xs. y < length (objs ?w1)"
    using Cons.prems by auto
  have same: "map (\<lambda>y. g y ((objs w @ [g x (objs w ! x)]) ! y)) xs = map (\<lambda>y. g y (objs w ! y)) xs"
    using Cons.prems by (auto simp: nth_append)
  have refs: "[length (objs w) ..< length (objs w) + length (x # xs)]
      = length (objs w) # [Suc (length (objs w)) ..< Suc (length (objs w)) + length xs]"
    by (subst upt_rec) simp
  have thawed: "frozen w - {length (objs w)}
                  - {Suc (length (objs w)) ..< Suc (length (objs w) + length xs)}
      = frozen w - {length (objs w) ..< Suc (length (objs w) + length xs)}"
    by auto
  show ?case
    unfolding refs by (simp add: copy_as_step [of g x w] Cons.IH [OF bound] same thawed)
qed

lemma array_map_copy_as:
  "\<forall>x\<in>set (arrs w ! a). x < length (objs w) \<Longrightarrow>
   array_map (copy_as g) a w =
     Inr (length (arrs w),
          w\<lparr>objs := objs w @ map (\<lambda>x. g x (objs w ! x)) (arrs w ! a),
            frozen := frozen w - {length (objs w) ..< length (objs w) + length (arrs w ! a)},
            arrs := arrs w @ [[length (objs w) ..< length (objs w) + length (arrs w ! a)]]\<rparr>)"
  by (simp add: array_map_def map_loop_copy_as)

lemma onAddOption_closed:
  assumes "store_ok props w"
  shows "onAddOption props a w =
     w\<lparr>objs := objs w @
          map (\<lambda>x. if x = a then (objs w ! x)\<lparr>checked := Some CheckedOn\<rparr>
                   else if truthy_single (singleSelection props) then (objs w ! x)\<lparr>checked := None\<rparr>
                   else objs w ! x) (arrs w ! options props),
        frozen := frozen w - {length (objs w) ..< length (objs w) + length (arrs w ! options props)},
        arrs := arrs w @ [[length (objs w) ..< length (objs w) + length (arrs w ! options props)]],
        onOptionClick_calls := onOptionClick_calls w @ [length (arrs w)],
        entered := entered w @ [Add]\<rparr>"
proof -
  have "\<forall>x\<in>set (arrs (enter Add w) ! options props). x < length (objs (enter Add w))"
    using assms by (simp add: store_ok_def enter_def)
  from array_map_copy_as [OF this] show ?thesis
    by (simp add: onAddOption_def onAddOption_each_copy onOptionClick_def enter_def)
qed

lemma onRemoveOption_closed:
  assumes "store_ok props w"
  shows "onRemoveOption props a w =
     w\<lparr>objs := objs w @
          map (\<lambda>x. if x = a \<and> singleSelection props \<noteq> Some SingleAlways
                   then (objs w ! x)\<lparr>checked := None\<rparr> else objs w ! x) (arrs w ! options props),
        frozen := frozen w - {length (objs w) ..< length (objs w) + length (arrs w ! options props)},
        arrs := arrs w @ [[length (objs w) ..< length (objs w) + length (arrs w ! options props)]],
        onOptionClick_calls := onOptionClick_calls w @ [length (arrs w)],
        entered := entered w @ [Remove]\<rparr>"
proof -
  have "\<forall>x\<in>set (arrs (enter Remove w) ! options props). x < length (objs (enter Remove w))"
    using assms by (simp add: store_ok_def enter_def)
  from array_map_copy_as [OF this] show ?thesis
    by (simp add: onRemoveOption_def onRemoveOption_each_copy onOptionClick_def enter_def)
qed

lemma onExcludeOption_frozen:
  "a \<in> frozen w \<Longrightarrow>
   onExcludeOption props a w = w\<lparr>entered := entered w @ [Exclude], thrown := thrown w @ [TypeError]\<rparr>"
  by (simp add: onExcludeOption_def assign_checked_def enter_def uncaught_def)

lemma onExcludeOption_closed:
  assumes "store_ok props w" and "a \<notin> frozen w"
  shows "onExcludeOption props a w =
     w\<lparr>objs := (objs w)[a := (objs w ! a)\<lparr>checked := Some CheckedOff\<rparr>] @
          map (\<lambda>x. (objs w ! x)\<lparr>checked := (if x = a then Some CheckedOff else checked (objs w ! x))\<rparr>)
            (arrs w ! options props),
        frozen := frozen w - {length (objs w) ..< length (objs w) + length (arrs w ! options props)},
        arrs := arrs w @ [[length (objs w) ..< length (objs w) + length (arrs w ! options props)]],
        onOptionClick_calls := onOptionClick_calls w @ [length (arrs w)],
        entered := entered w @ [Exclude]\<rparr>"
proof -
  let ?w0 = "w\<lparr>objs := (objs w)[a := (objs w ! a)\<lparr>checked := Some CheckedOff\<rparr>],
               entered := entered w @ [Exclude]\<rparr>"
  let ?g = "\<lambda>x ob. (if x = a then ob\<lparr>checked := Some CheckedOff\<rparr> else ob)"
  have written: "assign_checked a CheckedOff (enter Exclude w) = Inr ?w0"
    using assms(2) by (simp add: assign_checked_def enter_def)
  have "\<forall>x\<in>set (arrs ?w0 ! options props). x < length (objs ?w0)"
    using assms(1) by (simp add: store_ok_def)
  from array_map_copy_as [OF this, of ?g]
  have mapped: "array_map (copy_as ?g) (options props) ?w0 =
     Inr (length (arrs w),
      ?w0\<lparr>objs := objs ?w0 @ map (\<lambda>x. ?g x (objs ?w0 ! x)) (arrs w ! options props),
        frozen := frozen w - {length (objs w) ..< length (objs w) + length (arrs w ! options props)},
        arrs := arrs w @ [[length (objs w) ..< length (objs w) + length (arrs w ! options props)]]\<rparr>)"
    by simp
  have contents: "map (\<lambda>x. ?g x (objs ?w0 ! x)) (arrs w ! options props)
     = map (\<lambda>x. (objs w ! x)\<lparr>checked := (if x = a then Some CheckedOff else checked (objs w ! x))\<rparr>)
         (arrs w ! options props)"
    using assms(1) by (auto simp: store_ok_def)
  show ?thesis
    by (simp add: onExcludeOption_def written onExcludeOption_each_copy mapped contents
        onOptionClick_def)
qed

lemma map_loop_copy_as_frame:
  "\<exists>ys w'. map_loop (copy_as g) xs w = Inr (ys, w') \<and>
     arrs w' = arrs w \<and> onOptionClick_calls w' = onOptionClick_calls w \<and>
     entered w' = entered w \<and> thrown w' = thrown w"
proof (induction xs arbitrary: w)
  case Nil
  show ?case by simp
next
  case (Cons x xs)
  from Cons.IH [of "w\<lparr>objs := objs w @ [g x (objs w ! x)], frozen := frozen w - {length (objs w)}\<rparr>"]
  show ?case
    by (auto simp add: copy_as_step [of g x w])
qed

lemma array_map_copy_as_frame:
  "\<exists>w'. array_map (copy_as g) a w = Inr (length (arrs w), w') \<and>
     onOptionClick_calls w' = onOptionClick_calls w \<and>
     entered w' = entered w \<and> thrown w' = thrown w"
  using map_loop_copy_as_frame [of g "arrs w ! a" w]
  by (auto simp add: array_map_def)

lemma entered_onAddOption: "entered (onAddOption props a w) = entered w @ [Add]"
proof -
  obtain w' where
    "array_map (onAddOption_each props a) (options props) (enter Add w)
       = Inr (length (arrs (enter Add w)), w')"
    and "entered w' = entered (enter Add w)"
    unfolding onAddOption_each_copy using array_map_copy_as_frame by blast
  then show ?thesis
    by (simp add: onAddOption_def onOptionClick_def enter_def)
qed

lemma entered_onRemoveOption: "entered (onRemoveOption props a w) = entered w @ [Remove]"
proof -
  obtain w' where
    "array_map (onRemoveOption_each props a) (options props) (enter Remove w)
       = Inr (length (arrs (enter Remove w)), w')"
    and "entered w' = entered (enter Remove w)"
    unfolding onRemoveOption_each_copy using array_map_copy_as_frame by blast
  then show ?thesis
    by (simp add: onRemoveOption_def onOptionClick_def enter_def)
qed

lemma entered_onExcludeOption: "entered (onExcludeOption props a w) = entered w @ [Exclude]"
proof (cases "a \<in> frozen w")
  case True
  then show ?thesis by (simp add: onExcludeOption_frozen)
next
  case False
  let ?w0 = "w\<lparr>objs := (objs w)[a := (objs w ! a)\<lparr>checked := Some CheckedOff\<rparr>],
               entered := entered w @ [Exclude]\<rparr>"
  have written: "assign_checked a CheckedOff (enter Exclude w) = Inr ?w0"
    using False by (simp add: assign_checked_def enter_def)
  obtain w' where
    "array_map (onExcludeOption_each a) (options props) ?w0 = Inr (length (arrs ?w0), w')"
    and "entered w' = entered ?w0"
    unfolding onExcludeOption_each_copy using array_map_copy_as_frame by blast
  then show ?thesis
    by (simp add: onExcludeOption_def written onOptionClick_def)
qed

lemma one_call_onAddOption:
  "store_ok props w \<Longrightarrow> one_call_with_copies props w (onAddOption props a w)"
  by (simp add: onAddOption_closed one_call_with_copies_def shallow_copies_def nth_append)

lemma one_call_onRemoveOption:
  "store_ok props w \<Longrightarrow> one_call_with_copies props w (onRemoveOption props a w)"
  by (simp add: onRemoveOption_closed one_call_with_copies_def shallow_copies_def nth_append)

lemma one_call_onExcludeOption:
  "store_ok props w \<Longrightarrow> a \<notin> frozen w \<Longrightarrow>
   one_call_with_copies props w (onExcludeOption props a w)"
  by (simp add: onExcludeOption_closed one_call_with_copies_def shallow_copies_def nth_append)

section \<open>Dispatch of a click\<close>

text \<open>
  C1. A click on an option that is not disabled runs exactly one of the three toggle
  handlers: the exclude handler when the option's checked state is on and exclusions are
  allowed; otherwise the remove handler when its checked state is on or off; otherwise
  the add handler. The handler's result is the result of the click, and the trace of
  entered handlers grows by that one handler.
\<close>

theorem click_dispatch:
  "\<not> truthy (disabled (objs w ! option)) \<Longrightarrow>
   onAddOrRemoveOption props option w =
     (if checked (objs w ! option) = Some CheckedOn \<and> truthy (allowExclusions props)
        then onExcludeOption props option w
      else if checked (objs w ! option) = Some CheckedOn \<or> checked (objs w ! option) = Some CheckedOff
        then onRemoveOption props option w
      else onAddOption props option w) \<and>
   entered (onAddOrRemoveOption props option w) =
     entered w @
     [if checked (objs w ! option) = Some CheckedOn \<and> truthy (allowExclusions props) then Exclude
      else if checked (objs w ! option) = Some CheckedOn \<or> checked (objs w ! option) = Some CheckedOff
        then Remove
      else Add]"
  by (simp add: onAddOrRemoveOption_def entered_onAddOption entered_onRemoveOption
      entered_onExcludeOption)

theorem click_dispatch_witness:
  "\<not> truthy (disabled (objs fruit_world ! 0)) \<and>
   onAddOrRemoveOption (fruit_props None None) 0 fruit_world =
     onAddOption (fruit_props None None) 0 fruit_world \<and>
   entered (onAddOrRemoveOption (fruit_props None None) 0 fruit_world) = [Add]"
proof -
  have enabled: "\<not> truthy (disabled (objs fruit_world ! 0))"
    by (simp add: fruit_defs truthy_def)
  have on_apple: "checked (objs fruit_world ! 0) = None"
    by (simp add: fruit_defs)
  have fresh: "entered fruit_world = []"
    by (simp add: fruit_world_def)
  note inst = click_dispatch [OF enabled, of "fruit_props None None"]
  have d1: "onAddOrRemoveOption (fruit_props None None) 0 fruit_world =
              onAddOption (fruit_props None None) 0 fruit_world"
    using inst [THEN conjunct1] by (simp add: on_apple)
  have d2: "entered (onAddOrRemoveOption (fruit_props None None) 0 fruit_world) = [Add]"
    using inst [THEN conjunct2] by (simp add: on_apple fresh)
  from enabled d1 d2 show ?thesis by blast
qed

section \<open>Disabled options\<close>

text \<open>
  C10. A click on an option whose \<open>disabled\<close> flag is true does nothing at all: the
  handler returns the world it was given, so no toggle handler is entered,
  \<^verbatim>\<open>onOptionClick\<close> is not called, and no object or array is created or changed, whatever
  the checked states are.
\<close>

theorem disabled_click_is_noop:
  "disabled (objs w ! option) = Some True \<Longrightarrow> onAddOrRemoveOption props option w = w"
  by (simp add: onAddOrRemoveOption_def truthy_def)

theorem disabled_click_is_noop_witness:
  "disabled (objs fruit_world ! 2) = Some True \<and>
   onAddOrRemoveOption (fruit_props None None) 2 fruit_world = fruit_world"
proof -
  have off: "disabled (objs fruit_world ! 2) = Some True"
    by (simp add: fruit_defs)
  from disabled_click_is_noop [OF off] off show ?thesis by simp
qed

section \<open>The add handler\<close>

text \<open>
  C3. The array that \<^verbatim>\<open>onAddOption\<close> hands to the callback has the length of the options
  array; in it the clicked option has checked on; with single selection enabled every
  other option has no checked key; with single selection not enabled every other option
  keeps the checked state it had.
\<close>

theorem add_checks_clicked_option:
  assumes ok: "store_ok props w"
  shows "length (updatedOptions (onAddOption props a w)) = length (arrs w ! options props) \<and>
    (\<forall>i < length (arrs w ! options props).
       checked (objs (onAddOption props a w) ! (updatedOptions (onAddOption props a w) ! i)) =
         (if arrs w ! options props ! i = a then Some CheckedOn
          else if truthy_single (singleSelection props) then None
          else checked (objs w ! (arrs w ! options props ! i))))"
  by (simp add: onAddOption_closed [OF ok] updatedOptions_def nth_append)

theorem add_checks_clicked_option_witness:
  "store_ok (fruit_props None None) picked_world \<and>
   checked (objs (onAddOption (fruit_props None None) 1 picked_world)
            ! (updatedOptions (onAddOption (fruit_props None None) 1 picked_world) ! 0))
     = Some CheckedOn \<and>
   checked (objs (onAddOption (fruit_props None None) 1 picked_world)
            ! (updatedOptions (onAddOption (fruit_props None None) 1 picked_world) ! 1))
     = Some CheckedOn \<and>
   checked (objs (onAddOption (fruit_props None None) 1 picked_world)
            ! (updatedOptions (onAddOption (fruit_props None None) 1 picked_world) ! 2))
     = None"
proof -
  have ok: "store_ok (fruit_props None None) picked_world"
    by (simp add: store_ok_def run_defs)
  note rows = add_checks_clicked_option [OF ok, of 1, THEN conjunct2, rule_format]
  have len: "length (arrs picked_world ! options (fruit_props None None)) = 3"
    by (simp add: run_defs)
  have r0: "checked (objs (onAddOption (fruit_props None None) 1 picked_world)
            ! (updatedOptions (onAddOption (fruit_props None None) 1 picked_world) ! 0))
     = Some CheckedOn"
    using rows [of 0] by (simp add: len) (simp add: run_defs)
  have r1: "checked (objs (onAddOption (fruit_props None None) 1 picked_world)
            ! (updatedOptions (onAddOption (fruit_props None None) 1 picked_world) ! 1))
     = Some CheckedOn"
    using rows [of 1] by (simp add: len) (simp add: run_defs)
  have r2: "checked (objs (onAddOption (fruit_props None None) 1 picked_world)
            ! (updatedOptions (onAddOption (fruit_props None None) 1 picked_world) ! 2))
     = None"
    using rows [of 2] by (simp add: len) (simp add: run_defs)
  from ok r0 r1 r2 show ?thesis by blast
qed


section \<open>Copy on write\<close>

text \<open>
  C5, as the code has it. The add and the remove handler call \<^verbatim>\<open>onOptionClick\<close> exactly
  once, with a new array of the same length and order as the options array, whose elements
  are new objects that agree with the options on every property other than \<open>checked\<close>; they
  throw nothing, and every object and array that existed before is unchanged. The exclude
  handler first writes checked off into the clicked option itself. When that object is not
  frozen, it then does the same as the other two, and the objects that existed before are
  unchanged except for that write. When that object is frozen, the write throws
  \<^verbatim>\<open>TypeError\<close>: the handler was entered, and nothing else has happened, in particular no
  call of \<^verbatim>\<open>onOptionClick\<close>.
\<close>

theorem toggles_copy_on_write:
  assumes ok: "store_ok props w"
  shows "one_call_with_copies props w (onAddOption props a w) \<and>
         take (length (objs w)) (objs (onAddOption props a w)) = objs w \<and>
         thrown (onAddOption props a w) = thrown w \<and>
         one_call_with_copies props w (onRemoveOption props a w) \<and>
         take (length (objs w)) (objs (onRemoveOption props a w)) = objs w \<and>
         thrown (onRemoveOption props a w) = thrown w \<and>
         (a \<notin> frozen w \<longrightarrow>
            one_call_with_copies props w (onExcludeOption props a w) \<and>
            take (length (objs w)) (objs (onExcludeOption props a w)) =
              (objs w)[a := (objs w ! a)\<lparr>checked := Some CheckedOff\<rparr>] \<and>
            thrown (onExcludeOption props a w) = thrown w \<and>
            (a < length (objs w) \<longrightarrow>
               checked (objs (onExcludeOption props a w) ! a) = Some CheckedOff)) \<and>
         (a \<in> frozen w \<longrightarrow>
            onExcludeOption props a w =
              w\<lparr>entered := entered w @ [Exclude], thrown := thrown w @ [TypeError]\<rparr>)"
proof -
  have add: "take (length (objs w)) (objs (onAddOption props a w)) = objs w"
      "thrown (onAddOption props a w) = thrown w"
    by (simp_all add: onAddOption_closed [OF ok])
  have remove: "take (length (objs w)) (objs (onRemoveOption props a w)) = objs w"
      "thrown (onRemoveOption props a w) = thrown w"
    by (simp_all add: onRemoveOption_closed [OF ok])
  have exclude: "take (length (objs w)) (objs (onExcludeOption props a w)) =
           (objs w)[a := (objs w ! a)\<lparr>checked := Some CheckedOff\<rparr>]"
      "thrown (onExcludeOption props a w) = thrown w"
      "a < length (objs w) \<longrightarrow> checked (objs (onExcludeOption props a w) ! a) = Some CheckedOff"
    if "a \<notin> frozen w"
    by (simp_all add: onExcludeOption_closed [OF ok that] nth_append)
  show ?thesis
    using add remove exclude one_call_onAddOption [OF ok] one_call_onRemoveOption [OF ok]
      one_call_onExcludeOption [OF ok] onExcludeOption_frozen
    by blast
qed

theorem toggles_copy_on_write_witness:
  "store_ok excl_props picked_world \<and>
   0 \<notin> frozen picked_world \<and>
   one_call_with_copies excl_props picked_world
     (onExcludeOption excl_props 0 picked_world) \<and>
   take 3 (objs (onExcludeOption excl_props 0 picked_world)) =
     [apple\<lparr>checked := Some CheckedOff\<rparr>, banana, cherry] \<and>
   take 3 (objs (onAddOption excl_props 1 picked_world)) =
     [apple\<lparr>checked := Some CheckedOn\<rparr>, banana, cherry]"
proof -
  have ok: "store_ok excl_props picked_world"
    by (simp add: store_ok_def run_defs)
  have writable: "0 \<notin> frozen picked_world"
    by (simp add: run_defs)
  note all = toggles_copy_on_write [OF ok, of 0]
  note add = toggles_copy_on_write [OF ok, of 1]
  have len: "length (objs picked_world) = 3"
    by (simp add: run_defs)
  have old: "(objs picked_world)[0 := (objs picked_world ! 0)\<lparr>checked := Some CheckedOff\<rparr>]
               = [apple\<lparr>checked := Some CheckedOff\<rparr>, banana, cherry]"
    by (simp add: picked_world_def fruit_world_def)
  have same: "objs picked_world = [apple\<lparr>checked := Some CheckedOn\<rparr>, banana, cherry]"
    by (simp add: picked_world_def fruit_world_def)
  from all writable have c1: "one_call_with_copies excl_props picked_world
     (onExcludeOption excl_props 0 picked_world)"
    by blast
  from all writable
  have "take (length (objs picked_world))
          (objs (onExcludeOption excl_props 0 picked_world)) =
        (objs picked_world)[0 := (objs picked_world ! 0)\<lparr>checked := Some CheckedOff\<rparr>]"
    by blast
  then have c2: "take 3 (objs (onExcludeOption excl_props 0 picked_world)) =
     [apple\<lparr>checked := Some CheckedOff\<rparr>, banana, cherry]"
    by (simp only: len old)
  from add [THEN conjunct2, THEN conjunct1] have c3:
    "take 3 (objs (onAddOption excl_props 1 picked_world)) =
     [apple\<lparr>checked := Some CheckedOn\<rparr>, banana, cherry]"
    by (simp add: same numeral_3_eq_3)
  from ok writable c1 c2 c3 show ?thesis by blast
qed

text \<open>
  C5 as the claim states it does not hold: a click on a selected option that its owner has
  frozen, with exclusions allowed, enters the exclude handler, which throws at its first
  statement. \<^verbatim>\<open>onOptionClick\<close> is not called, and the option still has checked on.
\<close>

theorem frozen_option_no_callback:
  "0 \<in> frozen frozen_world \<and>
   entered (onAddOrRemoveOption excl_props 0 frozen_world) = [Exclude] \<and>
   thrown (onAddOrRemoveOption excl_props 0 frozen_world) = [TypeError] \<and>
   onOptionClick_calls (onAddOrRemoveOption excl_props 0 frozen_world) = [] \<and>
   checked (objs (onAddOrRemoveOption excl_props 0 frozen_world) ! 0)
     = Some CheckedOn"
  by (simp add: run_defs)

section \<open>After the owner has rendered again\<close>



section \<open>Two clicks in single-selection mode\<close>




section \<open>Exclusion\<close>





section \<open>What the update button renders\<close>

text \<open>
  C6, as the code has it. The label of the update button is determined by the flags
  \<open>needsUpdate\<close> and \<open>isLoading\<close>: with \<open>needsUpdate\<close> true and \<open>isLoading\<close> and \<open>isDisabled\<close>
  false it is ``Update''; with \<open>isLoading\<close> true it is ``Updating'', whatever the other
  properties are. With \<open>isDisabled\<close> true the tooltip content is ``Cannot update'', whatever
  the other flags are, unless \<^verbatim>\<open>toolTipProps\<close> carries a content: then that content is the
  tooltip's. In general the label is determined by the three flags, the tooltip content
  by the three flags and \<^verbatim>\<open>toolTipProps\<close>, the colour and the icon by the three flags and
  the remaining properties.
\<close>

theorem update_button_render:
  "default_str (children (anchored (render (props\<lparr>needsUpdate := True, isLoading := False, isDisabled := False\<rparr>))))
     = ''Update'' \<and>
   default_str (children (anchored (render (props\<lparr>isLoading := True\<rparr>)))) = ''Updating'' \<and>
   (Option.bind (toolTipProps props) toolTipProps_content = None \<longrightarrow>
      content (render (props\<lparr>isDisabled := True\<rparr>))
        = Some (I18n \<lparr>token = ''euiSuperUpdateButton.cannotUpdateTooltip'',
                      default_str = ''Cannot update''\<rparr>)) \<and>
   (Option.bind (toolTipProps props) toolTipProps_content = Some given \<longrightarrow>
      content (render (props\<lparr>isDisabled := True\<rparr>)) = given) \<and>
   (needsUpdate props = needsUpdate props' \<and> isLoading props = isLoading props' \<and>
    isDisabled props = isDisabled props' \<longrightarrow>
      children (anchored (render props)) = children (anchored (render props')) \<and>
      (toolTipProps props = toolTipProps props' \<longrightarrow>
         content (render props) = content (render props')) \<and>
      (rest props = rest props' \<longrightarrow>
         color (anchored (render props)) = color (anchored (render props')) \<and>
         iconType (anchored (render props)) = iconType (anchored (render props'))))"
  by (auto simp add: render_def Let_def spread_over_def)

theorem update_button_render_witness:
  "Option.bind (toolTipProps (stale_props None False)) toolTipProps_content = None \<and>
   content (render ((stale_props None False)\<lparr>isDisabled := True\<rparr>))
     = Some (I18n \<lparr>token = ''euiSuperUpdateButton.cannotUpdateTooltip'',
                   default_str = ''Cannot update''\<rparr>) \<and>
   Option.bind (toolTipProps busy_props) toolTipProps_content = Some (Some (Text ''Busy'')) \<and>
   content (render (busy_props\<lparr>isDisabled := True\<rparr>)) = Some (Text ''Busy'') \<and>
   needsUpdate (stale_props None False) = needsUpdate (stale_props (Some ''wide'') True) \<and>
   isLoading (stale_props None False) = isLoading (stale_props (Some ''wide'') True) \<and>
   isDisabled (stale_props None False) = isDisabled (stale_props (Some ''wide'') True) \<and>
   toolTipProps (stale_props None False) = toolTipProps (stale_props (Some ''wide'') True) \<and>
   children (anchored (render (stale_props None False)))
     = children (anchored (render (stale_props (Some ''wide'') True))) \<and>
   content (render (stale_props None False)) = content (render (stale_props (Some ''wide'') True))"
proof -
  have plain: "Option.bind (toolTipProps (stale_props None False)) toolTipProps_content = None"
    by (simp add: stale_props_def)
  have carried: "Option.bind (toolTipProps busy_props) toolTipProps_content = Some (Some (Text ''Busy''))"
    by (simp add: busy_props_def stale_props_def)
  have flags: "needsUpdate (stale_props None False) = needsUpdate (stale_props (Some ''wide'') True) \<and>
     isLoading (stale_props None False) = isLoading (stale_props (Some ''wide'') True) \<and>
     isDisabled (stale_props None False) = isDisabled (stale_props (Some ''wide'') True)"
    by (simp add: stale_props_def)
  have tips: "toolTipProps (stale_props None False) = toolTipProps (stale_props (Some ''wide'') True)"
    by (simp add: stale_props_def)
  note r1 = update_button_render [where props = "stale_props None False"]
  note r2 = update_button_render [where props = busy_props and given = "Some (Text ''Busy'')"]
  note r3 = update_button_render
    [where props = "stale_props None False" and props' = "stale_props (Some ''wide'') True"]
  from r1 plain have c1: "content (render ((stale_props None False)\<lparr>isDisabled := True\<rparr>))
     = Some (I18n \<lparr>token = ''euiSuperUpdateButton.cannotUpdateTooltip'',
                   default_str = ''Cannot update''\<rparr>)"
    by blast
  from r2 carried have c2: "content (render (busy_props\<lparr>isDisabled := True\<rparr>)) = Some (Text ''Busy'')"
    by blast
  from r3 flags tips have c3: "children (anchored (render (stale_props None False)))
     = children (anchored (render (stale_props (Some ''wide'') True))) \<and>
   content (render (stale_props None False)) = content (render (stale_props (Some ''wide'') True))"
    by blast
  from plain carried flags tips c1 c2 c3 show ?thesis by blast
qed

text \<open>
  C6 as the claim states it does not hold: a disabled button that is given a tooltip
  content through \<^verbatim>\<open>toolTipProps\<close> shows that content, not ``Cannot update''; the same three
  flags without \<^verbatim>\<open>toolTipProps\<close> give ``Cannot update''.
\<close>

theorem disabled_tooltip_overridden:
  "isDisabled busy_props \<and>
   content (render busy_props) = Some (Text ''Busy'') \<and>
   needsUpdate (busy_props\<lparr>toolTipProps := None\<rparr>) = needsUpdate busy_props \<and>
   isLoading (busy_props\<lparr>toolTipProps := None\<rparr>) = isLoading busy_props \<and>
   isDisabled (busy_props\<lparr>toolTipProps := None\<rparr>) = isDisabled busy_props \<and>
   content (render (busy_props\<lparr>toolTipProps := None\<rparr>))
     = Some (I18n \<lparr>token = ''euiSuperUpdateButton.cannotUpdateTooltip'',
                   default_str = ''Cannot update''\<rparr>)"
  by (simp add: busy_props_def stale_props_def render_def Let_def spread_over_def)

section \<open>The tooltip after an update\<close>

lemma map_of_fresh:
  "\<forall>(t, d) \<in> set ts. t < (n::nat) \<Longrightarrow> map_of ts n = None"
  by (induction ts) auto

lemma filter_fresh:
  "\<forall>(t, d) \<in> set ts. t < (n::nat) \<Longrightarrow> filter (\<lambda>(t, d). t \<noteq> n) ts = ts"
  by (induction ts) auto

text \<open>
  C7. Let the component be mounted with its tooltip attached (as it is whenever
  \<^verbatim>\<open>componentDidUpdate\<close> runs), and let \<open>showTooltip\<close>, \<open>needsUpdate\<close>, not \<open>isDisabled\<close> and
  not \<open>isLoading\<close> hold. Then \<^verbatim>\<open>componentDidUpdate\<close> shows the tooltip and adds one pending
  timer, due 2000 ms from now. That timer does nothing before the 2000 ms have passed and
  hides the tooltip when it runs after them; when the component was unmounted in between,
  it runs without a call on the tooltip. The timer is still pending after another
  \<^verbatim>\<open>componentDidUpdate\<close>, with any properties, and after \<^verbatim>\<open>componentWillUnmount\<close>. A timer that
  runs on a component that is not mounted never calls the tooltip.
\<close>

theorem tooltip_timer:
  assumes trigger: "showTooltip props \<and> needsUpdate props \<and> \<not> isDisabled props \<and> \<not> isLoading props"
    and mounted: "isMounted this"
    and node: "tooltip this = Some n"
    and ids: "timers_ok this"
  shows "tooltip_calls (componentDidUpdate props this) = tooltip_calls this @ [(n, ShowToolTip)] \<and>
         timers (componentDidUpdate props this) = timers this @ [(nextTimer this, clock this + 2000)] \<and>
         (ms < 2000 \<longrightarrow>
            fire (nextTimer this) (advance ms (componentDidUpdate props this))
              = advance ms (componentDidUpdate props this)) \<and>
         (2000 \<le> ms \<longrightarrow>
            tooltip_calls (fire (nextTimer this) (advance ms (componentDidUpdate props this)))
              = tooltip_calls this @ [(n, ShowToolTip), (n, HideToolTip)]) \<and>
         (2000 \<le> ms \<longrightarrow>
            tooltip_calls (fire (nextTimer this)
                             (advance ms (componentWillUnmount (componentDidUpdate props this))))
              = tooltip_calls this @ [(n, ShowToolTip)]) \<and>
         (nextTimer this, clock this + 2000)
            \<in> set (timers (componentDidUpdate props' (componentDidUpdate props this))) \<and>
         (nextTimer this, clock this + 2000)
            \<in> set (timers (componentWillUnmount (componentDidUpdate props this))) \<and>
         (\<not> isMounted other \<longrightarrow> tooltip_calls (fire timer other) = tooltip_calls other)"
proof -
  let ?s = "componentDidUpdate props this"
  have closed: "?s = this\<lparr>tooltip_calls := tooltip_calls this @ [(n, ShowToolTip)],
                          timers := timers this @ [(nextTimer this, clock this + 2000)],
                          nextTimer := Suc (nextTimer this),
                          tooltipTimeout := Some (nextTimer this)\<rparr>"
    using trigger mounted node
    by (simp add: componentDidUpdate_def showTooltip_method_def setTimeout_def)
  have bound: "\<forall>(t, d) \<in> set (timers this). t < nextTimer this"
    using ids by (simp add: timers_ok_def)
  note found = map_of_fresh [OF bound]
  note removed = filter_fresh [OF bound]
  have c1: "tooltip_calls ?s = tooltip_calls this @ [(n, ShowToolTip)]"
    by (simp add: closed)
  have c2: "timers ?s = timers this @ [(nextTimer this, clock this + 2000)]"
    by (simp add: closed)
  have c3: "fire (nextTimer this) (advance ms ?s) = advance ms ?s" if "ms < 2000"
    using that by (simp add: closed fire_def advance_def map_add_def found)
  have c4: "tooltip_calls (fire (nextTimer this) (advance ms ?s))
              = tooltip_calls this @ [(n, ShowToolTip), (n, HideToolTip)]" if "2000 \<le> ms"
    using that mounted node by (simp add: closed fire_def advance_def map_add_def found removed hideTooltip_def)
  have c5: "tooltip_calls (fire (nextTimer this) (advance ms (componentWillUnmount ?s)))
              = tooltip_calls this @ [(n, ShowToolTip)]" if "2000 \<le> ms"
    using that
    by (simp add: closed fire_def advance_def componentWillUnmount_def map_add_def found removed hideTooltip_def)
  have c6: "(nextTimer this, clock this + 2000) \<in> set (timers (componentDidUpdate props' ?s))"
    by (simp add: componentDidUpdate_def [of props'] setTimeout_def showTooltip_method_def c2
        split: option.splits)
  have c7: "(nextTimer this, clock this + 2000) \<in> set (timers (componentWillUnmount ?s))"
    by (simp add: componentWillUnmount_def c2)
  have c8: "tooltip_calls (fire timer other) = tooltip_calls other" if "\<not> isMounted other"
    using that by (simp add: fire_def hideTooltip_def split: option.splits)
  from c1 c2 c3 c4 c5 c6 c7 c8 show ?thesis by blast
qed

theorem tooltip_timer_witness:
  "showTooltip (stale_props None True) \<and> needsUpdate (stale_props None True) \<and>
   \<not> isDisabled (stale_props None True) \<and> \<not> isLoading (stale_props None True) \<and>
   isMounted mounted_button \<and> tooltip mounted_button = Some 7 \<and> timers_ok mounted_button \<and>
   timers (componentDidUpdate (stale_props None True) mounted_button) = [(0, 2000)] \<and>
   tooltip_calls (fire 0 (advance 2500 (componentDidUpdate (stale_props None True) mounted_button)))
     = [(7, ShowToolTip), (7, HideToolTip)] \<and>
   tooltip_calls (fire 0 (advance 2500
       (componentWillUnmount (componentDidUpdate (stale_props None True) mounted_button))))
     = [(7, ShowToolTip)]"
proof -
  have trigger: "showTooltip (stale_props None True) \<and> needsUpdate (stale_props None True) \<and>
     \<not> isDisabled (stale_props None True) \<and> \<not> isLoading (stale_props None True)"
    by (simp add: stale_props_def)
  have mounted: "isMounted mounted_button"
    and node: "tooltip mounted_button = Some 7"
    and ids: "timers_ok mounted_button"
    by (simp_all add: mounted_button_def timers_ok_def)
  have start: "nextTimer mounted_button = 0" "clock mounted_button = 0"
    "timers mounted_button = []" "tooltip_calls mounted_button = []"
    by (simp_all add: mounted_button_def)
  note timer = tooltip_timer [OF trigger mounted node ids, of 2500, unfolded start]
  from timer have c2: "timers (componentDidUpdate (stale_props None True) mounted_button) = [(0, 2000)]"
    by simp
  from timer have c4: "tooltip_calls (fire 0 (advance 2500
        (componentDidUpdate (stale_props None True) mounted_button)))
     = [(7, ShowToolTip), (7, HideToolTip)]"
    by simp
  from timer have c5: "tooltip_calls (fire 0 (advance 2500
       (componentWillUnmount (componentDidUpdate (stale_props None True) mounted_button))))
     = [(7, ShowToolTip)]"
    by simp
  from trigger mounted node ids c2 c4 c5 show ?thesis by blast
qed

section \<open>Parsing relative time expressions\<close>

lemma digit_value_digit_char: "d < 10 \<Longrightarrow> digit_value (digit_char d) = d"
  by (simp add: digit_value_def digit_char_def)

lemma is_digit_digit_char: "d < 10 \<Longrightarrow> is_digit (digit_char d)"
  by (simp add: is_digit_def digit_char_def)

lemma parseInt_from_snoc:
  "parseInt_from acc (ds @ [c]) = 10 * parseInt_from acc ds + digit_value c"
  by (induction ds arbitrary: acc) simp_all

lemma parseInt_decimal: "parseInt (decimal n) = n"
proof (induction n rule: decimal.induct)
  case (1 n)
  show ?case
  proof (cases "n < 10")
    case True
    then show ?thesis
      by (subst decimal.simps) (simp add: parseInt_def digit_value_digit_char)
  next
    case False
    with 1 have "parseInt (decimal (n div 10)) = n div 10" by simp
    with False show ?thesis
      by (subst decimal.simps) (simp add: parseInt_def parseInt_from_snoc digit_value_digit_char)
  qed
qed

lemma decimal_digits: "\<forall>c\<in>set (decimal n). is_digit c"
proof (induction n rule: decimal.induct)
  case (1 n)
  show ?case
  proof (cases "n < 10")
    case True
    then show ?thesis by (subst decimal.simps) (simp add: is_digit_digit_char)
  next
    case False
    with 1 have "\<forall>c\<in>set (decimal (n div 10)). is_digit c" by simp
    with False show ?thesis
      by (subst decimal.simps) (simp add: is_digit_digit_char)
  qed
qed

lemma decimal_not_empty: "decimal n \<noteq> []"
  by (subst decimal.simps) simp

lemma parseRelative_signed_offset:
  assumes known: "u \<in> set units" and letter: "\<not> is_digit u" and pos: "0 < N"
    and sign: "sign = CHR ''+'' \<or> sign = CHR ''-''"
  shows "parseRelative units hoursSince (''now'' @ sign # decimal N @ [u]) =
           Some \<lparr>timeTense = (if sign = CHR ''+'' then Next else Last),
                 timeUnits = u, timeValue = N\<rparr>"
proof -
  have front: "takeWhile is_digit (decimal N @ [u]) = decimal N"
    using letter decimal_digits [of N] by (simp add: takeWhile_tail)
  have after: "dropWhile is_digit (decimal N @ [u]) = [u]"
    using letter decimal_digits [of N] by (simp add: dropWhile_append2)
  show ?thesis
    using known pos sign
    by (auto simp add: parseRelative_def front after parseInt_decimal decimal_not_empty)
qed

lemma decimal_below_10: "n < 10 \<Longrightarrow> decimal n = [digit_char n]"
  by (subst decimal.simps) simp

text \<open>
  C8. For a unit letter \<open>u\<close> of the alphabet, a positive integer \<open>N\<close> and a sign, the
  expression \<^verbatim>\<open>now\<close>, sign, the decimal numeral of \<open>N\<close>, \<open>u\<close> parses to tense next for \<^verbatim>\<open>+\<close>
  and last for \<^verbatim>\<open>-\<close>, value \<open>N\<close> and unit \<open>u\<close>, whatever the fallback is.
\<close>

theorem parse_signed_offset:
  assumes known: "u \<in> set units" and letter: "\<not> is_digit u" and pos: "0 < N"
    and sign: "sign = CHR ''+'' \<or> sign = CHR ''-''"
  shows "parseTimeParts units hoursSince (''now'' @ sign # decimal N @ [u]) fallback =
           Some \<lparr>timeTense = (if sign = CHR ''+'' then Next else Last),
                 timeUnits = u, timeValue = N\<rparr>"
  using parseRelative_signed_offset [OF assms, of hoursSince]
  by (simp add: parseTimeParts_def)

theorem parse_signed_offset_witness:
  "CHR ''h'' \<in> set test_units \<and> \<not> is_digit CHR ''h'' \<and> (0::nat) < 2 \<and>
   parseTimeParts test_units (\<lambda>u. 6) ''now-2h'' ''now+5m''
     = Some \<lparr>timeTense = Last, timeUnits = CHR ''h'', timeValue = 2\<rparr>"
proof -
  have known: "CHR ''h'' \<in> set test_units"
    by (simp add: test_units_def)
  have letter: "\<not> is_digit CHR ''h''"
    by (simp add: is_digit_def)
  have pos: "(0::nat) < 2"
    by simp
  have sign: "CHR ''-'' = CHR ''+'' \<or> CHR ''-'' = CHR ''-''"
    by simp
  have written: "''now'' @ CHR ''-'' # decimal 2 @ [CHR ''h''] = ''now-2h''"
    by (simp add: decimal_below_10 digit_char_def char_of_def bit_Suc_0_iff)
  from parse_signed_offset [OF known letter pos sign, of "\<lambda>u. 6" "''now+5m''"]
  have "parseTimeParts test_units (\<lambda>u. 6) ''now-2h'' ''now+5m''
     = Some \<lparr>timeTense = Last, timeUnits = CHR ''h'', timeValue = 2\<rparr>"
    unfolding written by simp
  with known letter pos show ?thesis by blast
qed

text \<open>
  C9. For the string \<^verbatim>\<open>now\<close> the parser returns what it returns for the fallback
  expression, with tense next. So for a fallback with a sign, a positive integer \<open>N\<close> and a
  unit \<open>u\<close> the result is tense next, unit \<open>u\<close> and value \<open>N\<close>, and
  \<^verbatim>\<open>parseTimeParts('now', 'now+5m')\<close> is tense next, unit \<^verbatim>\<open>m\<close>, value 5.
\<close>

theorem parse_now:
  "(fallback \<noteq> ''now'' \<longrightarrow>
      parseTimeParts units hoursSince ''now'' fallback =
        map_option (\<lambda>parts. parts\<lparr>timeTense := Next\<rparr>)
          (parseTimeParts units hoursSince fallback other)) \<and>
   (u \<in> set units \<and> \<not> is_digit u \<and> 0 < N \<and> (sign = CHR ''+'' \<or> sign = CHR ''-'') \<longrightarrow>
      parseTimeParts units hoursSince ''now'' (''now'' @ sign # decimal N @ [u]) =
        Some \<lparr>timeTense = Next, timeUnits = u, timeValue = N\<rparr>) \<and>
   (CHR ''m'' \<in> set units \<longrightarrow>
      parseTimeParts units hoursSince ''now'' ''now+5m'' =
        Some \<lparr>timeTense = Next, timeUnits = CHR ''m'', timeValue = 5\<rparr>)"
proof (intro conjI impI)
  assume "fallback \<noteq> ''now''"
  then show "parseTimeParts units hoursSince ''now'' fallback =
        map_option (\<lambda>parts. parts\<lparr>timeTense := Next\<rparr>)
          (parseTimeParts units hoursSince fallback other)"
    by (simp add: parseTimeParts_def)
next
  assume "u \<in> set units \<and> \<not> is_digit u \<and> 0 < N \<and> (sign = CHR ''+'' \<or> sign = CHR ''-'')"
  then have "parseRelative units hoursSince (''now'' @ sign # decimal N @ [u]) =
           Some \<lparr>timeTense = (if sign = CHR ''+'' then Next else Last),
                 timeUnits = u, timeValue = N\<rparr>"
    by (intro parseRelative_signed_offset) simp_all
  then show "parseTimeParts units hoursSince ''now'' (''now'' @ sign # decimal N @ [u]) =
        Some \<lparr>timeTense = Next, timeUnits = u, timeValue = N\<rparr>"
    by (simp add: parseTimeParts_def)
next
  assume minute: "CHR ''m'' \<in> set units"
  have letter: "\<not> is_digit CHR ''m''"
    by (simp add: is_digit_def)
  have written: "''now'' @ CHR ''+'' # decimal 5 @ [CHR ''m''] = ''now+5m''"
    by (simp add: decimal_below_10 digit_char_def char_of_def bit_Suc_0_iff)
  from parseRelative_signed_offset [OF minute letter, of 5 "CHR ''+''" hoursSince]
  have "parseRelative units hoursSince ''now+5m'' =
          Some \<lparr>timeTense = Next, timeUnits = CHR ''m'', timeValue = 5\<rparr>"
    unfolding written by simp
  then show "parseTimeParts units hoursSince ''now'' ''now+5m'' =
        Some \<lparr>timeTense = Next, timeUnits = CHR ''m'', timeValue = 5\<rparr>"
    by (simp add: parseTimeParts_def)
qed

theorem parse_now_witness:
  "CHR ''m'' \<in> set test_units \<and>
   parseTimeParts test_units (\<lambda>u. 6) ''now'' ''now+5m'' =
     Some \<lparr>timeTense = Next, timeUnits = CHR ''m'', timeValue = 5\<rparr> \<and>
   ''now-2h'' \<noteq> ''now'' \<and>
   parseTimeParts test_units (\<lambda>u. 6) ''now'' ''now-2h'' =
     map_option (\<lambda>parts. parts\<lparr>timeTense := Next\<rparr>)
       (parseTimeParts test_units (\<lambda>u. 6) ''now-2h'' ''now+5m'')"
proof -
  have minute: "CHR ''m'' \<in> set test_units"
    by (simp add: test_units_def)
  have other: "''now-2h'' \<noteq> ''now''"
    by simp
  note example = parse_now [of _ test_units "\<lambda>u. 6", THEN conjunct2, THEN conjunct2, rule_format, OF minute]
  note general = parse_now [of "''now-2h''" test_units "\<lambda>u. 6" "''now+5m''", THEN conjunct1, rule_format, OF other]
  from minute example other general show ?thesis by blast
qed

end
